theory Spec2Isabelle
  imports Complex_Main "HOL-Library.Word"
begin

section \<open>Strings and numbers of the host language\<close>

text \<open>
  A string of the program is a sequence of UTF-16 code units; \<open>str\<close> embeds an ASCII
  literal of the source.  A \<open>number\<close> that arrives in a JSON body is finite and is only
  compared and passed on, so it is the \<open>real\<close> that it denotes.
\<close>

type_synonym js_string = "16 word list"

text \<open>
  The coordinates of a response are also compared by \<open>Object.is\<close>, in the dependency
  list of an effect, which tells the negative zero from zero: such a number is
  \<open>Finite x\<close>, with \<open>Finite 0\<close> the positive zero, or \<open>NegZero\<close>.  Both zeros print as
  "0", so \<open>num_value\<close> is what \<open>toString\<close> shows.
\<close>

datatype js_num = Finite real | NegZero

definition num_value :: "js_num \<Rightarrow> real" where
  "num_value x = (case x of Finite v \<Rightarrow> v | NegZero \<Rightarrow> 0)"

definition str :: "string \<Rightarrow> js_string" where
  "str cs = map (\<lambda>c. of_char c) cs"

text \<open>
  The value of an optional property or of an indexed read: \<open>undefined\<close>, \<open>null\<close> (a JSON
  null) or a value.
\<close>

datatype 'a js = Undefined | Null | Val 'a

text \<open>\<open>x ?? d\<close>\<close>

definition nullish :: "'a js \<Rightarrow> 'a \<Rightarrow> 'a" where
  "nullish x d = (case x of Val v \<Rightarrow> v | _ \<Rightarrow> d)"

text \<open>
  \<open>arr?.[index]\<close> on an optional JSON array whose entries may be null: an absent array and
  an index past the end both read \<open>undefined\<close>.
\<close>

definition opt_index :: "'a option list option \<Rightarrow> nat \<Rightarrow> 'a js" where
  "opt_index arr i =
     (case arr of
        None \<Rightarrow> Undefined
      | Some xs \<Rightarrow>
          if i < length xs then (case xs ! i of None \<Rightarrow> Null | Some v \<Rightarrow> Val v)
          else Undefined)"

section \<open>Unit system and its startup default\<close>

datatype unit_system = Metric | Imperial

definition units_str :: "unit_system \<Rightarrow> js_string" where
  "units_str u = (case u of Metric \<Rightarrow> str ''metric'' | Imperial \<Rightarrow> str ''imperial'')"

definition imperialLocales :: "js_string list" where
  "imperialLocales = [str ''en-US'', str ''en-LR'', str ''en-MM'']"

definition getDefaultUnits :: "js_string \<Rightarrow> unit_system" where
  "getDefaultUnits language =
     (if language \<in> set imperialLocales then Imperial else Metric)"

text \<open>
  The initialiser of the \<open>units\<close> state.  The argument is \<open>navigator.language\<close>, or
  \<open>None\<close> where \<open>typeof navigator === 'undefined'\<close>.
\<close>

definition initial_units :: "js_string option \<Rightarrow> unit_system" where
  "initial_units navigator =
     (case navigator of None \<Rightarrow> Metric | Some language \<Rightarrow> getDefaultUnits language)"

section \<open>Weather codes\<close>

record summary =
  label :: js_string
  emoji :: js_string

definition getWeeklySummary :: "real \<Rightarrow> summary" where
  "getWeeklySummary wcode =
     (if wcode = 0 then \<lparr>label = str ''Clear'', emoji = [0x2600, 0xFE0F]\<rparr>
      else if wcode \<ge> 1 \<and> wcode \<le> 3 then \<lparr>label = str ''Clouds'', emoji = [0x26C5]\<rparr>
      else if wcode = 45 \<or> wcode = 48
        then \<lparr>label = str ''Fog'', emoji = [0xD83C, 0xDF2B, 0xFE0F]\<rparr>
      else if wcode \<ge> 51 \<and> wcode \<le> 55
        then \<lparr>label = str ''Drizzle'', emoji = [0xD83C, 0xDF26, 0xFE0F]\<rparr>
      else if wcode \<ge> 61 \<and> wcode \<le> 67
        then \<lparr>label = str ''Rain'', emoji = [0xD83C, 0xDF27, 0xFE0F]\<rparr>
      else if wcode \<ge> 71 \<and> wcode \<le> 77
        then \<lparr>label = str ''Snow'', emoji = [0x2744, 0xFE0F]\<rparr>
      else if wcode \<ge> 80 \<and> wcode \<le> 82
        then \<lparr>label = str ''Showers'', emoji = [0xD83C, 0xDF26, 0xFE0F]\<rparr>
      else if wcode = 85 \<or> wcode = 86
        then \<lparr>label = str ''Snow'', emoji = [0xD83C, 0xDF28, 0xFE0F]\<rparr>
      else if wcode \<ge> 95 then \<lparr>label = str ''Storm'', emoji = [0x26C8, 0xFE0F]\<rparr>
      else \<lparr>label = str ''Clear'', emoji = [0x2728]\<rparr>)"

text \<open>
  The table of the specification, read row by row with the first matching row winning:
  the category it names for an integer code.
\<close>

definition spec_category :: "int \<Rightarrow> js_string" where
  "spec_category c =
     (if c = 0 then str ''Clear''
      else if c \<in> {1..3} then str ''Clouds''
      else if c \<in> {45, 48} then str ''Fog''
      else if c \<in> {51..55} then str ''Drizzle''
      else if c \<in> {61..67} then str ''Rain''
      else if c \<in> {71..77} then str ''Snow''
      else if c \<in> {80..82} then str ''Showers''
      else if c \<in> {85, 86} then str ''Snow''
      else if c \<ge> 95 then str ''Storm''
      else str ''Clear'')"

section \<open>Data of the component\<close>

text \<open>\<open>WeatherData\<close>, the body of a successful current-conditions response.\<close>

record coord_t =
  coord_lat :: js_num
  coord_lon :: js_num

record condition =
  main :: js_string
  description :: js_string

record weather_data =
  name :: js_string
  dt :: real
  timezone :: real
  visibility :: real
  coord :: "coord_t option"
  sys_country :: js_string
  weather :: "condition list"
  main_temp :: real
  main_feels_like :: real
  main_humidity :: real
  wind_speed :: real

text \<open>\<open>WeatherRequest\<close>: every field is optional.\<close>

record weather_request =
  city :: "js_string option"
  lat :: "real option"
  lon :: "real option"

text \<open>\<open>WeeklyForecastDay\<close>\<close>

record weekly_day =
  date :: js_string
  code :: real
  tempMax :: real
  tempMin :: real
  uvMax :: "real js"
  sunrise :: "js_string js"
  sunset :: "js_string js"

section \<open>Requests and responses\<close>

text \<open>
  A \<open>URLSearchParams\<close> object is an ordered list of pairs.  A value is a string or the
  decimal string \<open>n.toString()\<close> of a number \<open>n\<close>, kept as the number.
\<close>

datatype pval = Text js_string | Num real

type_synonym search_params = "(string \<times> pval) list"

fun params_set :: "search_params \<Rightarrow> string \<Rightarrow> pval \<Rightarrow> search_params" where
  "params_set [] k v = [(k, v)]"
| "params_set ((k', v') # ps) k v =
     (if k' = k then (k, v) # filter (\<lambda>p. fst p \<noteq> k) ps else (k', v') # params_set ps k v)"

text \<open>A call of \<open>fetch\<close>: the endpoint and the query string.\<close>

datatype net_call = WeatherCall search_params | ForecastCall search_params

text \<open>
  What a \<open>catch\<close> clause receives: an \<open>Error\<close> with its message, or some other value.
\<close>

datatype thrown = ErrorObj js_string | OtherValue

definition catch_message :: "thrown \<Rightarrow> js_string" where
  "catch_message err = (case err of ErrorObj m \<Rightarrow> m | OtherValue \<Rightarrow> str ''Unknown error'')"

text \<open>
  How \<open>await fetch(url)\<close> followed by \<open>await response.json()\<close> ends: \<open>fetch\<close> rejects,
  or it resolves to a response with its \<open>ok\<close> flag whose \<open>json()\<close> rejects (\<open>Inl\<close>) or
  yields a body.
\<close>

datatype 'b fetched = Rejected thrown | Responded bool "thrown + 'b"

text \<open>
  The body of a current-conditions response: its optional \<open>message\<close>, and the same
  object read as \<open>WeatherData\<close>.
\<close>

record weather_body =
  message :: "js_string js"
  content :: weather_data

text \<open>The body of a forecast response; the entries of the data arrays may be null.\<close>

record daily_t =
  time :: "js_string list option"
  weathercode :: "real option list option"
  temperature_2m_max :: "real option list option"
  temperature_2m_min :: "real option list option"
  uv_index_max :: "real option list option"
  daily_sunrise :: "js_string option list option"
  daily_sunset :: "js_string option list option"

record weekly_body =
  daily :: "daily_t option"

section \<open>State of the component\<close>

text \<open>
  The state hooks and the \<open>lastRequest\<close> ref of \<open>App\<close>.  Two more fields record the
  traffic: \<open>calls\<close> lists every call of \<open>fetch\<close> in the order made, and \<open>settled\<close> the
  positions in \<open>calls\<close> of those whose continuation has run.
\<close>

record app_state =
  query :: js_string
  units :: unit_system
  data :: "weather_data option"
  loading :: bool
  error :: js_string
  weekly :: "weekly_day list option"
  weeklyLoading :: bool
  weeklyError :: js_string
  lastRequest :: "weather_request option"
  calls :: "net_call list"
  settled :: "nat list"

definition init_state :: "js_string option \<Rightarrow> app_state" where
  "init_state navigator =
     \<lparr>query = [], units = initial_units navigator, data = None, loading = False,
      error = [], weekly = None, weeklyLoading = False, weeklyError = [],
      lastRequest = None, calls = [], settled = []\<rparr>"

section \<open>Current conditions\<close>

text \<open>The query string that \<open>fetchWeather\<close> builds.\<close>

definition weather_params :: "js_string \<Rightarrow> unit_system \<Rightarrow> weather_request \<Rightarrow> search_params" where
  "weather_params key u request =
     (let params = [(''appid'', Text key), (''units'', Text (units_str u))];
          params = (case city request of
                      Some c \<Rightarrow> if c \<noteq> [] then params_set params ''q'' (Text c) else params
                    | None \<Rightarrow> params);
          params = (case (lat request, lon request) of
                      (Some la, Some lo) \<Rightarrow>
                        params_set (params_set params ''lat'' (Num la)) ''lon'' (Num lo)
                    | _ \<Rightarrow> params)
      in params)"

text \<open>
  \<open>fetchWeather\<close> up to its first \<open>await\<close>.  The credential is \<open>None\<close> when the
  environment variable is undefined; the empty string is falsy as well.
\<close>

definition fetchWeather :: "js_string option \<Rightarrow> weather_request \<Rightarrow> app_state \<Rightarrow> app_state" where
  "fetchWeather apiKey request s =
     (case apiKey of
        None \<Rightarrow> s\<lparr>error := str ''Add VITE_OPENWEATHER_API_KEY to a .env file to fetch data.''\<rparr>
      | Some key \<Rightarrow>
          if key = []
          then s\<lparr>error := str ''Add VITE_OPENWEATHER_API_KEY to a .env file to fetch data.''\<rparr>
          else s\<lparr>loading := True, error := [], lastRequest := Some request,
                 calls := calls s @ [WeatherCall (weather_params key (units s) request)]\<rparr>)"

text \<open>The \<open>try\<close> block of \<open>fetchWeather\<close> after the response: what it throws or stores.\<close>

definition weather_outcome :: "weather_body fetched \<Rightarrow> thrown + weather_data" where
  "weather_outcome r =
     (case r of
        Rejected err \<Rightarrow> Inl err
      | Responded ok j \<Rightarrow>
          (case j of
             Inl err \<Rightarrow> Inl err
           | Inr body \<Rightarrow>
               if \<not> ok
               then Inl (ErrorObj (case message body of
                                     Val m \<Rightarrow> if m \<noteq> [] then m
                                              else str ''Unable to fetch weather right now.''
                                   | _ \<Rightarrow> str ''Unable to fetch weather right now.''))
               else Inr (content body)))"

text \<open>The rest of \<open>fetchWeather\<close>: \<open>try\<close>, \<open>catch\<close> and \<open>finally\<close>.\<close>

definition fetchWeather_settled :: "weather_body fetched \<Rightarrow> app_state \<Rightarrow> app_state" where
  "fetchWeather_settled r s =
     (case weather_outcome r of
        Inr d \<Rightarrow> s\<lparr>data := Some d, loading := False\<rparr>
      | Inl err \<Rightarrow> s\<lparr>error := catch_message err, data := None, loading := False\<rparr>)"

section \<open>Weekly forecast\<close>

definition forecast_params :: "js_num \<Rightarrow> js_num \<Rightarrow> unit_system \<Rightarrow> search_params" where
  "forecast_params la lo u =
     [(''latitude'', Num (num_value la)),
      (''longitude'', Num (num_value lo)),
      (''daily'',
        Text (str ''weathercode,temperature_2m_max,temperature_2m_min,uv_index_max,sunrise,sunset'')),
      (''timezone'', Text (str ''auto'')),
      (''forecast_days'', Text (str ''7'')),
      (''temperature_unit'', Text (if u = Imperial then str ''fahrenheit'' else str ''celsius''))]"

text \<open>\<open>fetchWeeklyForecast\<close> up to its first \<open>await\<close>.\<close>

definition fetchWeeklyForecast :: "js_num \<Rightarrow> js_num \<Rightarrow> app_state \<Rightarrow> app_state" where
  "fetchWeeklyForecast la lo s =
     s\<lparr>weeklyLoading := True, weeklyError := [],
       calls := calls s @ [ForecastCall (forecast_params la lo (units s))]\<rparr>"

text \<open>The callback of \<open>daily.time.map\<close>.\<close>

definition nextWeek_entry :: "daily_t \<Rightarrow> nat \<times> js_string \<Rightarrow> weekly_day" where
  "nextWeek_entry d p =
     (case p of (index, day) \<Rightarrow>
        \<lparr>date = day,
         code = nullish (opt_index (weathercode d) index) 0,
         tempMax = nullish (opt_index (temperature_2m_max d) index) 0,
         tempMin = nullish (opt_index (temperature_2m_min d) index) 0,
         uvMax = opt_index (uv_index_max d) index,
         sunrise = opt_index (daily_sunrise d) index,
         sunset = opt_index (daily_sunset d) index\<rparr>)"

definition weekly_outcome :: "weekly_body fetched \<Rightarrow> thrown + weekly_day list" where
  "weekly_outcome r =
     (case r of
        Rejected err \<Rightarrow> Inl err
      | Responded ok j \<Rightarrow>
          if \<not> ok then Inl (ErrorObj (str ''Unable to fetch the weekly forecast.''))
          else
            (case j of
               Inl err \<Rightarrow> Inl err
             | Inr body \<Rightarrow>
                 (case daily body of
                    None \<Rightarrow> Inl (ErrorObj (str ''Weekly forecast data is unavailable.''))
                  | Some d \<Rightarrow>
                      (case time d of
                         None \<Rightarrow> Inl (ErrorObj (str ''Weekly forecast data is unavailable.''))
                       | Some ts \<Rightarrow>
                           if length ts = 0
                           then Inl (ErrorObj (str ''Weekly forecast data is unavailable.''))
                           else Inr (map (nextWeek_entry d) (enumerate 0 ts))))))"

definition fetchWeeklyForecast_settled :: "weekly_body fetched \<Rightarrow> app_state \<Rightarrow> app_state" where
  "fetchWeeklyForecast_settled r s =
     (case weekly_outcome r of
        Inr nextWeek \<Rightarrow> s\<lparr>weekly := Some nextWeek, weeklyLoading := False\<rparr>
      | Inl err \<Rightarrow> s\<lparr>weeklyError := catch_message err, weekly := None, weeklyLoading := False\<rparr>)"

section \<open>Search, geolocation and the unit toggle\<close>

text \<open>
  The code units that \<open>String.prototype.trim\<close> strips: the WhiteSpace and
  LineTerminator code points of ECMAScript, all of them in the basic plane.
\<close>

definition is_js_space :: "16 word \<Rightarrow> bool" where
  "is_js_space c =
     (c = 0x0009 \<or> c = 0x000A \<or> c = 0x000B \<or> c = 0x000C \<or> c = 0x000D \<or> c = 0x0020
      \<or> c = 0x00A0 \<or> c = 0x1680 \<or> (0x2000 \<le> c \<and> c \<le> 0x200A)
      \<or> c = 0x2028 \<or> c = 0x2029 \<or> c = 0x202F \<or> c = 0x205F \<or> c = 0x3000 \<or> c = 0xFEFF)"

definition trim :: "js_string \<Rightarrow> js_string" where
  "trim t = rev (dropWhile is_js_space (rev (dropWhile is_js_space t)))"

definition onSubmit :: "js_string option \<Rightarrow> app_state \<Rightarrow> app_state" where
  "onSubmit apiKey s =
     (let trimmed = trim (query s)
      in if trimmed = [] then s\<lparr>error := str ''Enter a city name to search.''\<rparr>
         else fetchWeather apiKey \<lparr>city = Some trimmed, lat = None, lon = None\<rparr> s)"

text \<open>
  What the device reports to \<open>onUseLocation\<close>: no geolocation capability, the error
  callback, or the success callback with a position.
\<close>

datatype geo = Unsupported | Denied | Position real real

definition onUseLocation :: "js_string option \<Rightarrow> geo \<Rightarrow> app_state \<Rightarrow> app_state" where
  "onUseLocation apiKey g s =
     (case g of
        Unsupported \<Rightarrow> s\<lparr>error := str ''Geolocation is not supported in this browser.''\<rparr>
      | Denied \<Rightarrow>
          s\<lparr>error := str ''Unable to access your location. Check browser permissions.''\<rparr>
      | Position la lo \<Rightarrow> fetchWeather apiKey \<lparr>city = None, lat = Some la, lon = Some lo\<rparr> s)"

definition toggleUnits :: "app_state \<Rightarrow> app_state" where
  "toggleUnits s = s\<lparr>units := (if units s = Metric then Imperial else Metric)\<rparr>"

section \<open>Effects\<close>

text \<open>The effect with dependencies \<open>[fetchWeather, units]\<close>.\<close>

definition replay_effect :: "js_string option \<Rightarrow> app_state \<Rightarrow> app_state" where
  "replay_effect apiKey s =
     (case lastRequest s of Some request \<Rightarrow> fetchWeather apiKey request s | None \<Rightarrow> s)"

text \<open>
  The effect with dependencies \<open>[data?.coord?.lat, data?.coord?.lon, fetchWeeklyForecast]\<close>.
\<close>

definition weekly_effect :: "app_state \<Rightarrow> app_state" where
  "weekly_effect s =
     (case data s of
        None \<Rightarrow> s\<lparr>weekly := None\<rparr>
      | Some d \<Rightarrow>
          (case coord d of
             None \<Rightarrow> s\<lparr>weekly := None\<rparr>
           | Some c \<Rightarrow> fetchWeeklyForecast (coord_lat c) (coord_lon c) s))"

text \<open>
  The dependency lists.  The credential never changes, so the identity of \<open>fetchWeather\<close>
  and of \<open>fetchWeeklyForecast\<close> changes exactly when \<open>units\<close> does.  Two lists are
  compared entry by entry with \<open>Object.is\<close>, which on these values is equality.
\<close>

definition replay_deps :: "app_state \<Rightarrow> unit_system" where
  "replay_deps s = units s"

definition weekly_deps :: "app_state \<Rightarrow> js_num option \<times> js_num option \<times> unit_system" where
  "weekly_deps s =
     (case data s of
        None \<Rightarrow> (None, None, units s)
      | Some d \<Rightarrow>
          (case coord d of
             None \<Rightarrow> (None, None, units s)
           | Some c \<Rightarrow> (Some (coord_lat c), Some (coord_lon c), units s)))"

text \<open>
  After a render the effects whose dependencies differ from those of the previous render
  run, in the order of their declaration.
\<close>

definition commit :: "js_string option \<Rightarrow> app_state \<Rightarrow> app_state \<Rightarrow> app_state" where
  "commit apiKey old new =
     (let s1 = (if replay_deps new \<noteq> replay_deps old then replay_effect apiKey new else new);
          s2 = (if weekly_deps new \<noteq> weekly_deps old then weekly_effect s1 else s1)
      in s2)"

section \<open>What the page shows\<close>

text \<open>
  The forecast section of the rendered page, in the order of its conditionals.  When the
  days are shown, the UV cell of the first day calls \<open>toFixed\<close> on every \<open>uvMax\<close> that
  is not \<open>undefined\<close>: on a null this throws, and with no error boundary the component
  is unmounted.  Nothing else in the render throws on values of the declared types.
\<close>

datatype forecast_panel =
    ForecastLoading
  | ForecastError js_string
  | ForecastDays "weekly_day list"
  | ForecastPrompt
  | ForecastThrows

definition forecast_view :: "app_state \<Rightarrow> forecast_panel" where
  "forecast_view s =
     (if weeklyLoading s then ForecastLoading
      else if weeklyError s \<noteq> [] then ForecastError (weeklyError s)
      else (case weekly s of
              Some days \<Rightarrow>
                (case days of
                   [] \<Rightarrow> ForecastDays days
                 | day # rest \<Rightarrow> if uvMax day = Null then ForecastThrows else ForecastDays days)
            | None \<Rightarrow> ForecastPrompt))"

section \<open>Events\<close>

text \<open>
  What can happen to the mounted component: the user types, submits the search, asks for
  the device location (with what the device reports) or toggles the units, and the
  pending call at a position of \<open>calls\<close> settles with a response.  The click on
  "Use my location" and the callback of the device are one event: nothing is modelled
  between them.
\<close>

datatype event =
    Typed js_string
  | Submit
  | UseLocation geo
  | ToggleUnits
  | WeatherSettled nat "weather_body fetched"
  | ForecastSettled nat "weekly_body fetched"

definition handle :: "js_string option \<Rightarrow> event \<Rightarrow> app_state \<Rightarrow> app_state" where
  "handle apiKey e s =
     (case e of
        Typed t \<Rightarrow> s\<lparr>query := t\<rparr>
      | Submit \<Rightarrow> onSubmit apiKey s
      | UseLocation g \<Rightarrow> onUseLocation apiKey g s
      | ToggleUnits \<Rightarrow> toggleUnits s
      | WeatherSettled n r \<Rightarrow> (fetchWeather_settled r s)\<lparr>settled := n # settled s\<rparr>
      | ForecastSettled n r \<Rightarrow> (fetchWeeklyForecast_settled r s)\<lparr>settled := n # settled s\<rparr>)"

definition step :: "js_string option \<Rightarrow> event \<Rightarrow> app_state \<Rightarrow> app_state" where
  "step apiKey e s = commit apiKey s (handle apiKey e s)"

fun is_weather_call :: "net_call \<Rightarrow> bool" where
  "is_weather_call (WeatherCall ps) = True"
| "is_weather_call (ForecastCall ps) = False"

text \<open>
  Nothing happens to a component whose render has thrown.  A response can only arrive for
  a call that was made and has not settled yet.
\<close>

definition pending :: "nat \<Rightarrow> app_state \<Rightarrow> bool" where
  "pending n s = (n < length (calls s) \<and> n \<notin> set (settled s))"

definition enabled :: "event \<Rightarrow> app_state \<Rightarrow> bool" where
  "enabled e s =
     (forecast_view s \<noteq> ForecastThrows
      \<and> (case e of
           WeatherSettled n r \<Rightarrow> pending n s \<and> is_weather_call (calls s ! n)
         | ForecastSettled n r \<Rightarrow> pending n s \<and> \<not> is_weather_call (calls s ! n)
         | _ \<Rightarrow> True))"

fun run :: "js_string option \<Rightarrow> event list \<Rightarrow> app_state \<Rightarrow> app_state option" where
  "run apiKey [] s = Some s"
| "run apiKey (e # es) s = (if enabled e s then run apiKey es (step apiKey e s) else None)"

inductive reachable :: "js_string option \<Rightarrow> js_string option \<Rightarrow> app_state \<Rightarrow> bool"
  for apiKey navigator where
    reachable_init: "reachable apiKey navigator (init_state navigator)"
  | reachable_step:
      "reachable apiKey navigator s \<Longrightarrow> enabled e s \<Longrightarrow> reachable apiKey navigator (step apiKey e s)"

section \<open>Vocabulary of the properties\<close>

text \<open>
  A field is missing at an index of the forecast body when its array is absent, ends
  before the index, or holds null there; otherwise it has a value there.
\<close>

definition missing_at :: "'a option list option \<Rightarrow> nat \<Rightarrow> bool" where
  "missing_at arr i =
     (case arr of None \<Rightarrow> True | Some xs \<Rightarrow> if i < length xs then xs ! i = None else True)"

definition value_at :: "'a option list option \<Rightarrow> nat \<Rightarrow> 'a \<Rightarrow> bool" where
  "value_at arr i v =
     (case arr of None \<Rightarrow> False | Some xs \<Rightarrow> if i < length xs then xs ! i = Some v else False)"

text \<open>
  The forecast call that \<open>weekly_effect\<close> makes for a current-conditions result under
  a unit system: none without coordinates.
\<close>

definition cascade :: "weather_data option \<Rightarrow> unit_system \<Rightarrow> net_call list" where
  "cascade current u =
     (case current of
        None \<Rightarrow> []
      | Some d \<Rightarrow>
          (case coord d of
             None \<Rightarrow> []
           | Some c \<Rightarrow> [ForecastCall (forecast_params (coord_lat c) (coord_lon c) u)]))"

text \<open>Sample responses of the two providers.\<close>

definition sample_weather :: "js_string \<Rightarrow> real \<Rightarrow> real \<Rightarrow> weather_body" where
  "sample_weather place la lo =
     \<lparr>message = Undefined,
      content =
        \<lparr>name = place, dt = 1700000000, timezone = 3600, visibility = 10000,
         coord = Some \<lparr>coord_lat = Finite la, coord_lon = Finite lo\<rparr>,
         sys_country = str ''NO'',
         weather = [\<lparr>main = str ''Clouds'', description = str ''few clouds''\<rparr>],
         main_temp = 10, main_feels_like = 9, main_humidity = 50, wind_speed = 3\<rparr>\<rparr>"

definition sample_daily :: daily_t where
  "sample_daily =
     \<lparr>time = Some [str ''2024-05-01'', str ''2024-05-02''],
      weathercode = Some [Some 3, None],
      temperature_2m_max = Some [Some 12],
      temperature_2m_min = None,
      uv_index_max = Some [None, Some 4],
      daily_sunrise = Some [Some (str ''2024-05-01T05:10'')],
      daily_sunset = None\<rparr>"

text \<open>A forecast body with every field given for both days.\<close>

definition sample_forecast :: daily_t where
  "sample_forecast =
     \<lparr>time = Some [str ''2024-05-01'', str ''2024-05-02''],
      weathercode = Some [Some 3, Some 61],
      temperature_2m_max = Some [Some 12, Some 14],
      temperature_2m_min = Some [Some 4, Some 6],
      uv_index_max = Some [Some 5, Some 4],
      daily_sunrise = Some [Some (str ''2024-05-01T05:10''), Some (str ''2024-05-02T05:08'')],
      daily_sunset = Some [Some (str ''2024-05-01T21:20''), Some (str ''2024-05-02T21:22'')]\<rparr>"

section \<open>Properties\<close>

subsection \<open>Basic facts\<close>

lemma str_Nil [simp]: "str [] = []"
  by (simp add: str_def)

lemma str_nonempty [simp]: "(str (c # cs) = []) = False" "([] = str (c # cs)) = False"
  by (simp_all add: str_def)

lemma nullish_Val [simp]: "nullish (Val v) d = v"
  by (simp add: nullish_def)

lemma enumerate_Nil_iff [simp]: "(enumerate n xs = []) = (xs = [])"
  by (cases xs) simp_all

subsection \<open>Frame conditions of the operations\<close>

lemma fetchWeather_frame [simp]:
  "units (fetchWeather apiKey request s) = units s"
  "data (fetchWeather apiKey request s) = data s"
  "weekly (fetchWeather apiKey request s) = weekly s"
  "weeklyError (fetchWeather apiKey request s) = weeklyError s"
  "weeklyLoading (fetchWeather apiKey request s) = weeklyLoading s"
  "query (fetchWeather apiKey request s) = query s"
  "settled (fetchWeather apiKey request s) = settled s"
  by (simp_all add: fetchWeather_def split: option.splits)

lemma fetchWeather_settled_frame [simp]:
  "units (fetchWeather_settled r s) = units s"
  "weekly (fetchWeather_settled r s) = weekly s"
  "weeklyError (fetchWeather_settled r s) = weeklyError s"
  "weeklyLoading (fetchWeather_settled r s) = weeklyLoading s"
  "lastRequest (fetchWeather_settled r s) = lastRequest s"
  "calls (fetchWeather_settled r s) = calls s"
  "query (fetchWeather_settled r s) = query s"
  by (simp_all add: fetchWeather_settled_def split: sum.splits)

lemma fetchWeather_settled_result:
  "data (fetchWeather_settled r s) = (case weather_outcome r of Inr d \<Rightarrow> Some d | Inl err \<Rightarrow> None)"
  "loading (fetchWeather_settled r s) = False"
  "error (fetchWeather_settled r s)
     = (case weather_outcome r of Inr d \<Rightarrow> error s | Inl err \<Rightarrow> catch_message err)"
  by (simp_all add: fetchWeather_settled_def split: sum.splits)

lemma fetchWeeklyForecast_settled_frame [simp]:
  "units (fetchWeeklyForecast_settled r s) = units s"
  "data (fetchWeeklyForecast_settled r s) = data s"
  "loading (fetchWeeklyForecast_settled r s) = loading s"
  "error (fetchWeeklyForecast_settled r s) = error s"
  "lastRequest (fetchWeeklyForecast_settled r s) = lastRequest s"
  "calls (fetchWeeklyForecast_settled r s) = calls s"
  "query (fetchWeeklyForecast_settled r s) = query s"
  by (simp_all add: fetchWeeklyForecast_settled_def split: sum.splits)

lemma weekly_effect_frame [simp]:
  "units (weekly_effect s) = units s"
  "data (weekly_effect s) = data s"
  "loading (weekly_effect s) = loading s"
  "error (weekly_effect s) = error s"
  "lastRequest (weekly_effect s) = lastRequest s"
  "query (weekly_effect s) = query s"
  "settled (weekly_effect s) = settled s"
  by (simp_all add: weekly_effect_def fetchWeeklyForecast_def split: option.splits)

lemma lastRequest_fetchWeather:
  "lastRequest (fetchWeather apiKey request s)
     = (case apiKey of
          None \<Rightarrow> lastRequest s
        | Some key \<Rightarrow> if key = [] then lastRequest s else Some request)"
  by (simp add: fetchWeather_def split: option.splits)

lemma calls_weekly_effect: "calls (weekly_effect s) = calls s @ cascade (data s) (units s)"
  by (simp add: weekly_effect_def cascade_def fetchWeeklyForecast_def split: option.splits)

subsection \<open>Steps of the component\<close>

lemma commit_same_deps:
  "units new = units old \<Longrightarrow> data new = data old \<Longrightarrow> commit apiKey old new = new"
  by (simp add: commit_def replay_deps_def weekly_deps_def split: option.splits)

lemma step_Submit:
  "step apiKey Submit s = onSubmit apiKey s"
  by (simp add: step_def handle_def onSubmit_def Let_def commit_same_deps)

lemma step_ForecastSettled:
  "step apiKey (ForecastSettled n r) s = (fetchWeeklyForecast_settled r s)\<lparr>settled := n # settled s\<rparr>"
  by (simp add: step_def handle_def commit_same_deps)

lemma step_WeatherSettled:
  "step apiKey (WeatherSettled n r) s =
     (let s' = (fetchWeather_settled r s)\<lparr>settled := n # settled s\<rparr>
      in if weekly_deps s' \<noteq> weekly_deps s then weekly_effect s' else s')"
  by (simp add: step_def handle_def commit_def replay_deps_def Let_def)

lemma step_WeatherSettled_result:
  "data (step apiKey (WeatherSettled n r) s)
     = (case weather_outcome r of Inr d \<Rightarrow> Some d | Inl err \<Rightarrow> None)"
  "loading (step apiKey (WeatherSettled n r) s) = False"
  "error (step apiKey (WeatherSettled n r) s)
     = (case weather_outcome r of Inr d \<Rightarrow> error s | Inl err \<Rightarrow> catch_message err)"
  "lastRequest (step apiKey (WeatherSettled n r) s) = lastRequest s"
  by (simp_all add: step_WeatherSettled Let_def fetchWeather_settled_result)

lemma step_ToggleUnits:
  "step apiKey ToggleUnits s = weekly_effect (replay_effect apiKey (toggleUnits s))"
  by (simp add: step_def handle_def commit_def replay_deps_def weekly_deps_def toggleUnits_def
      Let_def split: option.splits)

lemma units_step_ToggleUnits:
  "units (step apiKey ToggleUnits s) = (if units s = Metric then Imperial else Metric)"
  by (simp add: step_ToggleUnits replay_effect_def toggleUnits_def split: option.splits)

lemma calls_toggle:
  assumes "apiKey = Some key" and "key \<noteq> []" and "lastRequest s = Some request"
  shows "calls (step apiKey ToggleUnits s)
           = calls s @ WeatherCall (weather_params key (units (step apiKey ToggleUnits s)) request)
               # cascade (data s) (units (step apiKey ToggleUnits s))"
  using assms
  by (simp add: units_step_ToggleUnits)
    (simp add: step_ToggleUnits calls_weekly_effect replay_effect_def fetchWeather_def
      toggleUnits_def)




subsection \<open>Query strings\<close>

lemma cascade_forecast_only: "filter is_weather_call (cascade current u) = []"
  by (simp add: cascade_def split: option.splits)





subsection \<open>The last request is only ever stored with a credential\<close>




text \<open>
  Only a settling forecast response changes what the forecast section shows before the
  effects run, so a render can only throw in the state that such a step ends in.
\<close>

lemma handle_forecast_view:
  "(case e of ForecastSettled n r \<Rightarrow> False | _ \<Rightarrow> True) \<Longrightarrow>
     forecast_view (handle apiKey e s) = forecast_view s"
  by (cases e)
    (simp_all add: handle_def forecast_view_def onSubmit_def onUseLocation_def toggleUnits_def
      Let_def split: geo.splits)

text \<open>Every state that a run from the initial state ends in is reachable.\<close>

lemma run_reachable:
  "reachable apiKey navigator s \<Longrightarrow> run apiKey es s = Some s' \<Longrightarrow>
     reachable apiKey navigator s'"
proof (induction es arbitrary: s)
  case Nil
  then show ?case
    by simp
next
  case (Cons e es)
  from Cons.prems(2) have en: "enabled e s" and rest: "run apiKey es (step apiKey e s) = Some s'"
    by (simp_all split: if_splits)
  from Cons.prems(1) en have "reachable apiKey navigator (step apiKey e s)"
    by (rule reachable_step)
  then show ?case
    using rest by (rule Cons.IH)
qed

subsection \<open>Weather-code table\<close>

text \<open>
  C4.  For every integer weather code the label returned by \<open>getWeeklySummary\<close> is the
  category of the specification's table (first match wins): 0 is Clear, 1-3 Clouds,
  45 and 48 Fog, 51-55 Drizzle, 61-67 Rain, 71-77 Snow, 80-82 Showers, 85 and 86 Snow,
  95 and above Storm, every other code Clear.
\<close>

theorem getWeeklySummary_table:
  "label (getWeeklySummary (of_int c)) = spec_category c
   \<and> map (\<lambda>b. label (getWeeklySummary b)) [0, 3, 45, 48, 55, 67, 77, 82, 86, 95, 99, 20]
     = map str [''Clear'', ''Clouds'', ''Fog'', ''Fog'', ''Drizzle'', ''Rain'', ''Snow'',
                ''Showers'', ''Snow'', ''Storm'', ''Storm'', ''Clear'']"
  unfolding getWeeklySummary_def spec_category_def by simp

subsection \<open>Startup default\<close>

text \<open>
  C10.  The initial unit system is imperial exactly when the environment has a locale
  facility whose locale string is "en-US", "en-LR" or "en-MM", and metric in every other
  case, in particular without a locale facility; it is the unit system of the initial
  state.
\<close>

theorem initial_units_imperial_iff:
  "(initial_units navigator = Imperial) =
     (navigator = Some (str ''en-US'') \<or> navigator = Some (str ''en-LR'')
       \<or> navigator = Some (str ''en-MM''))
   \<and> (initial_units navigator = Metric) =
     (navigator \<noteq> Some (str ''en-US'') \<and> navigator \<noteq> Some (str ''en-LR'')
       \<and> navigator \<noteq> Some (str ''en-MM''))
   \<and> initial_units None = Metric
   \<and> units (init_state navigator) = initial_units navigator"
  unfolding initial_units_def getDefaultUnits_def imperialLocales_def init_state_def
  by (cases navigator) auto

subsection \<open>Missing credential\<close>

text \<open>
  C3.  For every request and every state (so every unit system): without a credential
  (undefined, or the empty string) \<open>fetchWeather\<close> changes nothing but the error message,
  which becomes the configuration error.  No call is added to the network traffic, the
  loading flag is not raised and the last-request memory is not written.
\<close>

theorem fetchWeather_no_credential:
  "apiKey = None \<or> apiKey = Some [] \<Longrightarrow>
     fetchWeather apiKey request s =
       s\<lparr>error := str ''Add VITE_OPENWEATHER_API_KEY to a .env file to fetch data.''\<rparr>
     \<and> calls (fetchWeather apiKey request s) = calls s
     \<and> loading (fetchWeather apiKey request s) = loading s
     \<and> lastRequest (fetchWeather apiKey request s) = lastRequest s"
  by (auto simp: fetchWeather_def)

text \<open>At startup, searching for Oslo without a credential.\<close>

theorem fetchWeather_no_credential_witness:
  "((None :: js_string option) = None \<or> None = Some [])
   \<and> fetchWeather None \<lparr>city = Some (str ''Oslo''), lat = None, lon = None\<rparr> (init_state None)
       = (init_state None)
           \<lparr>error := str ''Add VITE_OPENWEATHER_API_KEY to a .env file to fetch data.''\<rparr>
   \<and> calls (fetchWeather None \<lparr>city = Some (str ''Oslo''), lat = None, lon = None\<rparr>
         (init_state None)) = []"
  using fetchWeather_no_credential
    [of None "\<lparr>city = Some (str ''Oslo''), lat = None, lon = None\<rparr>" "init_state None"]
  by (simp add: init_state_def)

subsection \<open>Forecast unavailable\<close>

lemma weekly_outcome_not_empty: "weekly_outcome r \<noteq> Inr []"
  by (simp add: weekly_outcome_def split: fetched.splits sum.splits option.splits)

text \<open>
  C5.  When the forecast response is non-success, the forecast ends with no stored value
  and the error "Unable to fetch the weekly forecast."; when a successful response has no
  \<open>daily\<close> object, no \<open>time\<close> array or an empty one, it ends with no stored value and
  the error "Weekly forecast data is unavailable.".  In both cases the page shows the
  error, and a forecast fetch never stores an empty sequence.
\<close>

theorem forecast_unavailable:
  "(\<not> ok \<longrightarrow>
      weekly (step apiKey (ForecastSettled n (Responded ok j)) s) = None
      \<and> weeklyError (step apiKey (ForecastSettled n (Responded ok j)) s)
          = str ''Unable to fetch the weekly forecast.''
      \<and> forecast_view (step apiKey (ForecastSettled n (Responded ok j)) s)
          = ForecastError (str ''Unable to fetch the weekly forecast.''))
   \<and> (daily body = None \<or> (\<exists>d. daily body = Some d \<and> (time d = None \<or> time d = Some []))
      \<longrightarrow>
      weekly (step apiKey (ForecastSettled n (Responded True (Inr body))) s) = None
      \<and> weeklyError (step apiKey (ForecastSettled n (Responded True (Inr body))) s)
          = str ''Weekly forecast data is unavailable.''
      \<and> forecast_view (step apiKey (ForecastSettled n (Responded True (Inr body))) s)
          = ForecastError (str ''Weekly forecast data is unavailable.''))
   \<and> weekly (step apiKey (ForecastSettled n r) s) \<noteq> Some []"
proof (intro conjI impI)
  show "weekly (step apiKey (ForecastSettled n r) s) \<noteq> Some []"
    using weekly_outcome_not_empty [of r]
    by (cases "weekly_outcome r")
      (simp_all add: step_ForecastSettled fetchWeeklyForecast_settled_def)
qed (auto simp: step_ForecastSettled fetchWeeklyForecast_settled_def weekly_outcome_def
      catch_message_def forecast_view_def)

text \<open>A non-success response, and a successful one with an empty \<open>time\<close> array.\<close>

theorem forecast_unavailable_witness:
  "forecast_view
     (step None (ForecastSettled 0 (Responded False (Inl OtherValue))) (init_state None))
     = ForecastError (str ''Unable to fetch the weekly forecast.'')
   \<and> daily \<lparr>daily = Some (sample_daily\<lparr>time := Some []\<rparr>)\<rparr>
       = Some (sample_daily\<lparr>time := Some []\<rparr>)
   \<and> time (sample_daily\<lparr>time := Some []\<rparr>) = Some []
   \<and> forecast_view
       (step None
         (ForecastSettled 0
           (Responded True (Inr \<lparr>daily = Some (sample_daily\<lparr>time := Some []\<rparr>)\<rparr>)))
         (init_state None))
     = ForecastError (str ''Weekly forecast data is unavailable.'')
   \<and> weekly
       (step None
         (ForecastSettled 0
           (Responded True (Inr \<lparr>daily = Some (sample_daily\<lparr>time := Some []\<rparr>)\<rparr>)))
         (init_state None))
     = None"
  using forecast_unavailable
    [where ok = False and j = "Inl OtherValue" and apiKey = None and n = 0
       and s = "init_state None"
       and body = "\<lparr>daily = Some (sample_daily\<lparr>time := Some []\<rparr>)\<rparr>"
       and r = "Rejected OtherValue"]
  by simp

subsection \<open>Search\<close>

lemma trim_empty_iff: "(trim t = []) = (\<forall>c \<in> set t. is_js_space c)"
proof
  assume "trim t = []"
  then have "\<forall>c \<in> set (dropWhile is_js_space t). is_js_space c"
    by (simp add: trim_def)
  then have "dropWhile is_js_space t = []"
    using hd_dropWhile [of is_js_space t] hd_in_set [of "dropWhile is_js_space t"] by blast
  then show "\<forall>c \<in> set t. is_js_space c"
    by simp
next
  assume "\<forall>c \<in> set t. is_js_space c"
  then show "trim t = []"
    by (auto simp: trim_def dest: set_dropWhileD)
qed

text \<open>
  C6.  Submitting a search text that is empty after trimming only sets the validation
  error and makes no call.  Otherwise the submit is exactly \<open>fetchWeather\<close> on the
  request whose city is the trimmed text; with a credential this issues one
  current-conditions call for that city and remembers the request.
\<close>

theorem submit_search:
  "(trim (query s) = [] \<longrightarrow>
      step apiKey Submit s = s\<lparr>error := str ''Enter a city name to search.''\<rparr>
      \<and> calls (step apiKey Submit s) = calls s)
   \<and> (trim (query s) \<noteq> [] \<longrightarrow>
      step apiKey Submit s
        = fetchWeather apiKey \<lparr>city = Some (trim (query s)), lat = None, lon = None\<rparr> s
      \<and> (\<forall>key. apiKey = Some key \<and> key \<noteq> [] \<longrightarrow>
            calls (step apiKey Submit s)
              = calls s @ [WeatherCall [(''appid'', Text key),
                                        (''units'', Text (units_str (units s))),
                                        (''q'', Text (trim (query s)))]]
            \<and> lastRequest (step apiKey Submit s)
              = Some \<lparr>city = Some (trim (query s)), lat = None, lon = None\<rparr>))"
  by (auto simp: step_Submit onSubmit_def Let_def fetchWeather_def weather_params_def)

text \<open>A search text of three spaces, and the text " Oslo ".\<close>

theorem submit_search_witness:
  "trim (query ((init_state None)\<lparr>query := str ''   ''\<rparr>)) = []
   \<and> step (Some (str ''key'')) Submit ((init_state None)\<lparr>query := str ''   ''\<rparr>)
       = (init_state None)
           \<lparr>query := str ''   '', error := str ''Enter a city name to search.''\<rparr>
   \<and> trim (query ((init_state None)\<lparr>query := str '' Oslo ''\<rparr>)) = str ''Oslo''
   \<and> calls (step (Some (str ''key'')) Submit ((init_state None)\<lparr>query := str '' Oslo ''\<rparr>))
       = [WeatherCall [(''appid'', Text (str ''key'')), (''units'', Text (str ''metric'')),
                       (''q'', Text (str ''Oslo''))]]"
proof -
  have t1: "trim (str ''   '') = []"
    by (simp add: trim_def str_def is_js_space_def)
  have t2: "trim (str '' Oslo '') = str ''Oslo''"
    by (simp add: trim_def str_def is_js_space_def)
  show ?thesis
    using submit_search [of "(init_state None)\<lparr>query := str ''   ''\<rparr>" "Some (str ''key'')"]
      submit_search [of "(init_state None)\<lparr>query := str '' Oslo ''\<rparr>" "Some (str ''key'')"]
    by (simp add: t1 t2 init_state_def initial_units_def units_str_def fetchWeather_def
        weather_params_def)
qed

subsection \<open>Forecast entries\<close>

lemma missing_at_opt_index:
  "missing_at arr i \<Longrightarrow> opt_index arr i = Undefined \<or> opt_index arr i = Null"
  by (auto simp: missing_at_def opt_index_def split: option.splits if_splits)

lemma missing_at_nullish: "missing_at arr i \<Longrightarrow> nullish (opt_index arr i) d = d"
  by (auto simp: missing_at_def opt_index_def nullish_def split: option.splits if_splits)

lemma value_at_opt_index: "value_at arr i v \<Longrightarrow> opt_index arr i = Val v"
  by (auto simp: value_at_def opt_index_def split: option.splits if_splits)

lemma value_at_nullish: "value_at arr i v \<Longrightarrow> nullish (opt_index arr i) d = v"
  by (simp add: value_at_opt_index nullish_def)

lemma nextWeek_nth:
  "i < length ts \<Longrightarrow>
     map (nextWeek_entry d) (enumerate 0 ts) ! i = nextWeek_entry d (i, ts ! i)"
  by (simp add: nth_enumerate_eq)

lemma weekly_outcome_days:
  "daily body = Some d \<Longrightarrow> time d = Some ts \<Longrightarrow> ts \<noteq> [] \<Longrightarrow>
     weekly_outcome (Responded True (Inr body)) = Inr (map (nextWeek_entry d) (enumerate 0 ts))"
  by (simp add: weekly_outcome_def)

text \<open>
  C7.  For a successful forecast response and every index \<open>i\<close> of its \<open>time\<close> array, a
  sequence of the same length is stored whose entry \<open>i\<close> has the date \<open>time[i]\<close>; a
  weather code, maximum or minimum temperature missing at \<open>i\<close> is 0; a UV maximum,
  sunrise or sunset missing at \<open>i\<close> is \<open>undefined\<close> or \<open>null\<close>, not a default; and
  every field that has a value at \<open>i\<close> carries that value.
\<close>

theorem forecast_entries:
  assumes "daily body = Some d" and "time d = Some ts" and "i < length ts"
  shows "\<exists>days.
      weekly (step apiKey (ForecastSettled n (Responded True (Inr body))) s) = Some days
      \<and> length days = length ts
      \<and> date (days ! i) = ts ! i
      \<and> (missing_at (weathercode d) i \<longrightarrow> code (days ! i) = 0)
      \<and> (missing_at (temperature_2m_max d) i \<longrightarrow> tempMax (days ! i) = 0)
      \<and> (missing_at (temperature_2m_min d) i \<longrightarrow> tempMin (days ! i) = 0)
      \<and> (missing_at (uv_index_max d) i \<longrightarrow> uvMax (days ! i) \<in> {Undefined, Null})
      \<and> (missing_at (daily_sunrise d) i \<longrightarrow> sunrise (days ! i) \<in> {Undefined, Null})
      \<and> (missing_at (daily_sunset d) i \<longrightarrow> sunset (days ! i) \<in> {Undefined, Null})
      \<and> (\<forall>v. value_at (weathercode d) i v \<longrightarrow> code (days ! i) = v)
      \<and> (\<forall>v. value_at (temperature_2m_max d) i v \<longrightarrow> tempMax (days ! i) = v)
      \<and> (\<forall>v. value_at (temperature_2m_min d) i v \<longrightarrow> tempMin (days ! i) = v)
      \<and> (\<forall>v. value_at (uv_index_max d) i v \<longrightarrow> uvMax (days ! i) = Val v)
      \<and> (\<forall>v. value_at (daily_sunrise d) i v \<longrightarrow> sunrise (days ! i) = Val v)
      \<and> (\<forall>v. value_at (daily_sunset d) i v \<longrightarrow> sunset (days ! i) = Val v)"
proof -
  let ?days = "map (nextWeek_entry d) (enumerate 0 ts)"
  from assms have ne: "ts \<noteq> []"
    by auto
  have stored:
    "weekly (step apiKey (ForecastSettled n (Responded True (Inr body))) s) = Some ?days"
    using assms(1,2) ne
    by (simp add: step_ForecastSettled fetchWeeklyForecast_settled_def weekly_outcome_days)
  have entry: "?days ! i = nextWeek_entry d (i, ts ! i)"
    using assms(3) by (rule nextWeek_nth)
  have fields:
    "date (?days ! i) = ts ! i"
    "code (?days ! i) = nullish (opt_index (weathercode d) i) 0"
    "tempMax (?days ! i) = nullish (opt_index (temperature_2m_max d) i) 0"
    "tempMin (?days ! i) = nullish (opt_index (temperature_2m_min d) i) 0"
    "uvMax (?days ! i) = opt_index (uv_index_max d) i"
    "sunrise (?days ! i) = opt_index (daily_sunrise d) i"
    "sunset (?days ! i) = opt_index (daily_sunset d) i"
    unfolding entry by (simp_all add: nextWeek_entry_def)
  have "length ?days = length ts"
    by simp
  with stored fields show ?thesis
    by (intro exI [of _ ?days])
      (auto simp: missing_at_nullish value_at_nullish value_at_opt_index
        dest: missing_at_opt_index)
qed

text \<open>The second day of the sample forecast, where only the UV maximum is given.\<close>

theorem forecast_entries_witness:
  "daily \<lparr>daily = Some sample_daily\<rparr> = Some sample_daily
   \<and> time sample_daily = Some [str ''2024-05-01'', str ''2024-05-02'']
   \<and> (1::nat) < length [str ''2024-05-01'', str ''2024-05-02'']
   \<and> (\<exists>days.
        weekly (step None (ForecastSettled 0 (Responded True (Inr \<lparr>daily = Some sample_daily\<rparr>)))
                 (init_state None)) = Some days
        \<and> length days = 2
        \<and> date (days ! 1) = str ''2024-05-02''
        \<and> code (days ! 1) = 0
        \<and> tempMax (days ! 1) = 0
        \<and> tempMin (days ! 1) = 0
        \<and> uvMax (days ! 1) = Val 4
        \<and> sunrise (days ! 1) \<in> {Undefined, Null}
        \<and> sunset (days ! 1) \<in> {Undefined, Null})"
  using forecast_entries
    [of "\<lparr>daily = Some sample_daily\<rparr>" sample_daily "[str ''2024-05-01'', str ''2024-05-02'']"
       1 None 0 "init_state None"]
  by (auto simp: sample_daily_def missing_at_def value_at_def)

subsection \<open>Unit toggle\<close>



subsection \<open>Last-request memory\<close>

text \<open>
  C9.  With a credential, \<open>fetchWeather\<close> stores the request at once, together with
  issuing the call; the request is still stored when the response has settled, whatever
  the response was, and a unit toggle after that issues exactly one current-conditions
  call, for that request under the toggled unit system.  A settling response never
  changes the memory, and without a credential \<open>fetchWeather\<close> leaves it unchanged.
\<close>

theorem last_request_memory:
  "(\<forall>key. apiKey = Some key \<and> key \<noteq> [] \<longrightarrow>
      lastRequest (fetchWeather apiKey request s) = Some request
      \<and> calls (fetchWeather apiKey request s)
          = calls s @ [WeatherCall (weather_params key (units s) request)]
      \<and> lastRequest (step apiKey (WeatherSettled n r) (fetchWeather apiKey request s))
          = Some request
      \<and> filter is_weather_call
            (drop (length (calls (step apiKey (WeatherSettled n r) (fetchWeather apiKey request s))))
              (calls (step apiKey ToggleUnits
                       (step apiKey (WeatherSettled n r) (fetchWeather apiKey request s)))))
          = [WeatherCall
               (weather_params key (if units s = Metric then Imperial else Metric) request)])
   \<and> lastRequest (step apiKey (WeatherSettled n r) s) = lastRequest s
   \<and> (apiKey = None \<or> apiKey = Some [] \<longrightarrow>
        lastRequest (fetchWeather apiKey request s) = lastRequest s)"
proof (intro conjI allI impI)
  fix key
  assume k: "apiKey = Some key \<and> key \<noteq> []"
  let ?s1 = "fetchWeather apiKey request s"
  let ?s2 = "step apiKey (WeatherSettled n r) ?s1"
  from k show started: "lastRequest ?s1 = Some request"
    by (simp add: lastRequest_fetchWeather)
  from k show "calls ?s1 = calls s @ [WeatherCall (weather_params key (units s) request)]"
    by (simp add: fetchWeather_def)
  show kept: "lastRequest ?s2 = Some request"
    using started by (simp add: step_WeatherSettled_result)
  have u: "units ?s2 = units s"
    by (simp add: step_WeatherSettled Let_def)
  from k have "apiKey = Some key" and "key \<noteq> []"
    by simp_all
  from calls_toggle [OF this kept]
  show "filter is_weather_call (drop (length (calls ?s2)) (calls (step apiKey ToggleUnits ?s2)))
      = [WeatherCall (weather_params key (if units s = Metric then Imperial else Metric) request)]"
    by (simp add: cascade_forecast_only units_step_ToggleUnits u)
next
  show "lastRequest (step apiKey (WeatherSettled n r) s) = lastRequest s"
    by (simp add: step_WeatherSettled_result)
next
  assume "apiKey = None \<or> apiKey = Some []"
  then show "lastRequest (fetchWeather apiKey request s) = lastRequest s"
    by (auto simp: lastRequest_fetchWeather)
qed

text \<open>A search for Atlantis whose request fails in the network.\<close>

theorem last_request_memory_witness:
  "lastRequest
     (fetchWeather (Some (str ''key'')) \<lparr>city = Some (str ''Atlantis''), lat = None, lon = None\<rparr>
        (init_state None))
     = Some \<lparr>city = Some (str ''Atlantis''), lat = None, lon = None\<rparr>
   \<and> lastRequest
       (step (Some (str ''key''))
          (WeatherSettled 0 (Rejected (ErrorObj (str ''Failed to fetch''))))
          (fetchWeather (Some (str ''key''))
             \<lparr>city = Some (str ''Atlantis''), lat = None, lon = None\<rparr> (init_state None)))
     = Some \<lparr>city = Some (str ''Atlantis''), lat = None, lon = None\<rparr>
   \<and> lastRequest
       (fetchWeather None \<lparr>city = Some (str ''Atlantis''), lat = None, lon = None\<rparr>
          (init_state None))
     = None"
  using last_request_memory
    [where apiKey = "Some (str ''key'')"
       and request = "\<lparr>city = Some (str ''Atlantis''), lat = None, lon = None\<rparr>"
       and s = "init_state None" and n = 0
       and r = "Rejected (ErrorObj (str ''Failed to fetch''))"]
    last_request_memory
    [where apiKey = None
       and request = "\<lparr>city = Some (str ''Atlantis''), lat = None, lon = None\<rparr>"
       and s = "init_state None" and n = 0
       and r = "Rejected (ErrorObj (str ''Failed to fetch''))"]
  by (simp add: init_state_def)

subsection \<open>Order of responses\<close>



subsection \<open>The two results\<close>

text \<open>
  C2, as the code has it.  A settling forecast response, failed or not, leaves the
  current conditions, their error and their loading flag unchanged.  Starting a
  current-conditions fetch leaves the forecast, its error and its loading flag unchanged.
  A current-conditions response that fails leaves the forecast error and loading flag
  unchanged, and leaves the stored forecast unchanged only when the previous current
  conditions had no coordinates: otherwise the reset effect clears it.
\<close>

theorem fetch_states_independent:
  "data (step apiKey (ForecastSettled n f) s) = data s
   \<and> error (step apiKey (ForecastSettled n f) s) = error s
   \<and> loading (step apiKey (ForecastSettled n f) s) = loading s
   \<and> weeklyError (fetchWeather apiKey request s) = weeklyError s
   \<and> weeklyLoading (fetchWeather apiKey request s) = weeklyLoading s
   \<and> weekly (fetchWeather apiKey request s) = weekly s
   \<and> (\<forall>err. weather_outcome r = Inl err \<longrightarrow>
        weeklyError (step apiKey (WeatherSettled n r) s) = weeklyError s
        \<and> weeklyLoading (step apiKey (WeatherSettled n r) s) = weeklyLoading s
        \<and> weekly (step apiKey (WeatherSettled n r) s)
            = (case data s of
                 None \<Rightarrow> weekly s
               | Some d \<Rightarrow> (case coord d of None \<Rightarrow> weekly s | Some c \<Rightarrow> None)))"
  by (auto simp: step_ForecastSettled step_WeatherSettled Let_def weekly_deps_def
      fetchWeather_settled_def weekly_effect_def split: option.splits)

text \<open>
  Two runs from the initial state.  In the first, conditions and forecast have loaded and
  a search for Atlantis is under way; when it fails in the network, the stored forecast
  is cleared.  In the second, the search starts and fails while the forecast is still
  under way, so the forecast arrives when there are no conditions; when one more search
  fails, that forecast stays.
\<close>

theorem fetch_states_independent_witness:
  "(\<exists>s. run (Some (str ''key''))
           [UseLocation (Position 1 2), WeatherSettled 0 (Responded True (Inr (sample_weather (str ''A'') 1 2))), ForecastSettled 1 (Responded True (Inr \<lparr>daily = Some sample_forecast\<rparr>)),
            Typed (str ''Atlantis''), Submit]
           (init_state None) = Some s
        \<and> enabled (WeatherSettled 2 (Rejected (ErrorObj (str ''Failed to fetch'')))) s
        \<and> weather_outcome (Rejected (ErrorObj (str ''Failed to fetch''))) = Inl (ErrorObj (str ''Failed to fetch''))
        \<and> data s = Some (content (sample_weather (str ''A'') 1 2))
        \<and> weekly s = Some (map (nextWeek_entry sample_forecast) [(0, str ''2024-05-01''), (1, str ''2024-05-02'')])
        \<and> weekly (step (Some (str ''key'')) (WeatherSettled 2 (Rejected (ErrorObj (str ''Failed to fetch'')))) s) = None
        \<and> weeklyError (step (Some (str ''key'')) (WeatherSettled 2 (Rejected (ErrorObj (str ''Failed to fetch'')))) s) = weeklyError s
        \<and> weeklyLoading (step (Some (str ''key'')) (WeatherSettled 2 (Rejected (ErrorObj (str ''Failed to fetch'')))) s) = weeklyLoading s)
   \<and> (\<exists>s. run (Some (str ''key''))
           [UseLocation (Position 1 2), WeatherSettled 0 (Responded True (Inr (sample_weather (str ''A'') 1 2))), Typed (str ''Atlantis''), Submit,
            WeatherSettled 2 (Rejected (ErrorObj (str ''Failed to fetch''))), ForecastSettled 1 (Responded True (Inr \<lparr>daily = Some sample_forecast\<rparr>)), Submit]
           (init_state None) = Some s
        \<and> enabled (WeatherSettled 3 (Rejected (ErrorObj (str ''Failed to fetch'')))) s
        \<and> data s = None
        \<and> weekly s = Some (map (nextWeek_entry sample_forecast) [(0, str ''2024-05-01''), (1, str ''2024-05-02'')])
        \<and> weekly (step (Some (str ''key'')) (WeatherSettled 3 (Rejected (ErrorObj (str ''Failed to fetch'')))) s) = Some (map (nextWeek_entry sample_forecast) [(0, str ''2024-05-01''), (1, str ''2024-05-02'')]))"
proof -
  let ?k = "(Some (str ''key''))"
  let ?fail = "Rejected (ErrorObj (str ''Failed to fetch''))"
  let ?days = "map (nextWeek_entry sample_forecast)
    [(0, str ''2024-05-01''), (1, str ''2024-05-02'')]"
  define a where "a =
    step ?k Submit
      (step ?k (Typed (str ''Atlantis''))
        (step ?k (ForecastSettled 1 (Responded True (Inr \<lparr>daily = Some sample_forecast\<rparr>)))
          (step ?k (WeatherSettled 0 (Responded True (Inr (sample_weather (str ''A'') 1 2))))
            (step ?k (UseLocation (Position 1 2)) (init_state None)))))"
  define b where "b =
    step ?k Submit
      (step ?k (ForecastSettled 1 (Responded True (Inr \<lparr>daily = Some sample_forecast\<rparr>)))
        (step ?k (WeatherSettled 2 ?fail)
          (step ?k Submit
            (step ?k (Typed (str ''Atlantis''))
              (step ?k (WeatherSettled 0 (Responded True (Inr (sample_weather (str ''A'') 1 2))))
                (step ?k (UseLocation (Position 1 2)) (init_state None)))))))"
  note defs = init_state_def initial_units_def enabled_def pending_def step_def handle_def
    commit_def replay_deps_def weekly_deps_def onUseLocation_def onSubmit_def fetchWeather_def
    fetchWeather_settled_def weather_outcome_def weekly_effect_def fetchWeeklyForecast_def
    fetchWeeklyForecast_settled_def weekly_outcome_def forecast_view_def nextWeek_entry_def
    opt_index_def sample_weather_def sample_forecast_def trim_def is_js_space_def str_def Let_def
  have run_a: "run ?k
      [UseLocation (Position 1 2), WeatherSettled 0 (Responded True (Inr (sample_weather (str ''A'') 1 2))), ForecastSettled 1 (Responded True (Inr \<lparr>daily = Some sample_forecast\<rparr>)),
       Typed (str ''Atlantis''), Submit]
      (init_state None) = Some a"
    unfolding a_def by (simp add: defs)
  have en_a: "enabled (WeatherSettled 2 ?fail) a"
    unfolding a_def by (simp add: defs)
  have data_a: "data a = Some (content (sample_weather (str ''A'') 1 2))"
    unfolding a_def by (simp add: defs)
  have weekly_a: "weekly a = Some ?days"
    unfolding a_def by (simp add: defs)
  have run_b: "run ?k
      [UseLocation (Position 1 2), WeatherSettled 0 (Responded True (Inr (sample_weather (str ''A'') 1 2))), Typed (str ''Atlantis''), Submit,
       WeatherSettled 2 ?fail, ForecastSettled 1 (Responded True (Inr \<lparr>daily = Some sample_forecast\<rparr>)), Submit]
      (init_state None) = Some b"
    unfolding b_def by (simp add: defs)
  have en_b: "enabled (WeatherSettled 3 ?fail) b"
    unfolding b_def by (simp add: defs)
  have data_b: "data b = None"
    unfolding b_def by (simp add: defs)
  have weekly_b: "weekly b = Some ?days"
    unfolding b_def by (simp add: defs)
  have out: "weather_outcome ?fail = Inl (ErrorObj (str ''Failed to fetch''))"
    by (simp add: weather_outcome_def)
  have coord_a: "coord (content (sample_weather (str ''A'') 1 2))
      = Some \<lparr>coord_lat = Finite 1, coord_lon = Finite 2\<rparr>"
    by (simp add: sample_weather_def)
  have first: "weekly (step ?k (WeatherSettled 2 ?fail) a) = None
      \<and> weeklyError (step ?k (WeatherSettled 2 ?fail) a) = weeklyError a
      \<and> weeklyLoading (step ?k (WeatherSettled 2 ?fail) a) = weeklyLoading a"
    using fetch_states_independent [where r = ?fail and apiKey = ?k and n = 2 and s = a] out
    by (simp add: data_a coord_a)
  have second: "weekly (step ?k (WeatherSettled 3 ?fail) b) = Some ?days"
    using fetch_states_independent [where r = ?fail and apiKey = ?k and n = 3 and s = b] out
    by (simp add: data_b weekly_b)
  show ?thesis
    using run_a en_a out data_a weekly_a first run_b en_b data_b weekly_b second
    by (intro conjI exI [of _ a] exI [of _ b]) simp_all
qed

text \<open>
  The claim of the specification, that a failed current-conditions fetch leaves a stored
  forecast unchanged, fails: after conditions and forecast have loaded and are shown, a
  search for Atlantis fails in the network, and the stored forecast is gone.
\<close>

theorem forecast_reset_counterexample:
  "map_option weekly
     (run (Some (str ''key''))
        [UseLocation (Position 1 2),
         WeatherSettled 0 (Responded True (Inr (sample_weather (str ''A'') 1 2))),
         ForecastSettled 1 (Responded True (Inr \<lparr>daily = Some sample_forecast\<rparr>)),
         Typed (str ''Atlantis''),
         Submit]
        (init_state None))
     = Some (Some (map (nextWeek_entry sample_forecast) [(0, str ''2024-05-01''), (1, str ''2024-05-02'')]))
   \<and> map_option weekly
     (run (Some (str ''key''))
        [UseLocation (Position 1 2),
         WeatherSettled 0 (Responded True (Inr (sample_weather (str ''A'') 1 2))),
         ForecastSettled 1 (Responded True (Inr \<lparr>daily = Some sample_forecast\<rparr>)),
         Typed (str ''Atlantis''),
         Submit,
         WeatherSettled 2 (Rejected (ErrorObj (str ''Failed to fetch'')))]
        (init_state None))
     = Some None"
  by (simp add: init_state_def initial_units_def enabled_def pending_def step_def handle_def
      commit_def replay_deps_def weekly_deps_def onUseLocation_def onSubmit_def fetchWeather_def
      fetchWeather_settled_def weather_outcome_def weekly_effect_def fetchWeeklyForecast_def
      fetchWeeklyForecast_settled_def weekly_outcome_def forecast_view_def nextWeek_entry_def
      opt_index_def sample_weather_def sample_forecast_def trim_def is_js_space_def str_def
      Let_def)

end
